theory Spec2Isabelle
  imports Complex_Main
begin

section \<open>The Unity connector: decoding hand-tracking datagrams\<close>

text \<open>
  Source: \<^verbatim>\<open>SignBridgeConnector\<close> (C#). The exceptions the decode path can raise are
  values of \<open>exn\<close>; a call that may raise returns \<open>exn + 'a\<close> with \<open>Inl\<close> the exception.
\<close>

datatype exn = NullReferenceException | ArgumentOutOfRangeException | FormatException

text \<open>
  \<^verbatim>\<open>String.Remove(startIndex, count)\<close>: raises when an argument is negative or the
  range leaves the string, otherwise deletes \<open>count\<close> characters from \<open>startIndex\<close>.
\<close>

definition Remove :: "string \<Rightarrow> int \<Rightarrow> int \<Rightarrow> exn + string" where
  "Remove s startIndex count =
     (if startIndex < 0 \<or> count < 0 \<or> int (length s) < startIndex + count
      then Inl ArgumentOutOfRangeException
      else Inr (take (nat startIndex) s @ drop (nat (startIndex + count)) s))"

text \<open>
  \<^verbatim>\<open>String.Split(separator)\<close>: one token per separator plus one; the empty string
  splits into the single empty token, and empty tokens are kept.
\<close>

fun Split :: "char \<Rightarrow> string \<Rightarrow> string list" where
  "Split sep [] = [[]]"
| "Split sep (c # cs) =
     (if c = sep then [] # Split sep cs
      else (case Split sep cs of [] \<Rightarrow> [[c]] | t # ts \<Rightarrow> (c # t) # ts))"

datatype 'r landmark = Landmark (x_of: 'r) (y_of: 'r) (z_of: 'r)

record 'r handData =
  landmarks :: "'r landmark list"
  session_id :: string
  timestamp :: int

text \<open>
  The loop of \<^verbatim>\<open>SendHandDataToSignBridge\<close>: \<open>i\<close> runs from 0 to 20; an iteration whose
  three indices are in range parses three tokens with \<^verbatim>\<open>float.Parse\<close> and appends a
  landmark. \<^verbatim>\<open>float.Parse\<close> belongs to the .NET library, so it is the parameter
  \<open>parse\<close>: \<open>None\<close> is its \<^verbatim>\<open>FormatException\<close>.
\<close>

function convert_points ::
  "(string \<Rightarrow> 'r option) \<Rightarrow> string list \<Rightarrow> nat \<Rightarrow> 'r landmark list \<Rightarrow> exn + 'r landmark list" where
  "convert_points parse handPoints i acc =
     (if i < 21 then
        (if i * 3 + 2 < length handPoints then
           (case parse (handPoints ! (i * 3)) of
              None \<Rightarrow> Inl FormatException
            | Some px \<Rightarrow>
               (case parse (handPoints ! (i * 3 + 1)) of
                  None \<Rightarrow> Inl FormatException
                | Some py \<Rightarrow>
                   (case parse (handPoints ! (i * 3 + 2)) of
                      None \<Rightarrow> Inl FormatException
                    | Some pz \<Rightarrow>
                        convert_points parse handPoints (Suc i) (acc @ [Landmark px py pz]))))
         else convert_points parse handPoints (Suc i) acc)
      else Inr acc)"
  by pat_completeness auto
termination
  by (relation "measure (\<lambda>(parse, handPoints, i, acc). 21 - i)") auto

declare convert_points.simps [simp del]

text \<open>
  \<^verbatim>\<open>SendHandDataToSignBridge\<close> up to its request: the structure it builds from the
  tokens, the current session id and the clock (\<open>now\<close>, Unix milliseconds), or the
  exception that ends the coroutine before anything is sent.
\<close>

definition SendHandDataToSignBridge ::
  "(string \<Rightarrow> 'r option) \<Rightarrow> string \<Rightarrow> int \<Rightarrow> string list \<Rightarrow> exn + 'r handData" where
  "SendHandDataToSignBridge parse currentSessionId now handPoints =
     (case convert_points parse handPoints 0 [] of
        Inl e \<Rightarrow> Inl e
      | Inr ls \<Rightarrow> Inr \<lparr>landmarks = ls, session_id = currentSessionId, timestamp = now\<rparr>)"

record UDPReceive =
  data :: "string option"

record connector =
  isRecognizing :: bool
  currentSessionId :: string
  handTracking :: bool
  udpReceive :: "UDPReceive option"

text \<open>
  What one call of \<^verbatim>\<open>ProcessHandTrackingData\<close> does: returns at once when recognition
  is off; logs the exception its \<^verbatim>\<open>catch\<close> block receives; does nothing for fewer
  than 63 tokens; or starts the coroutine, which either posts a request to
  \<^verbatim>\<open>/api/recognize/advanced\<close> or ends with an exception of its own. An exception
  raised in a coroutine's body is reported by the engine and does not reach the
  \<^verbatim>\<open>catch\<close> block of the method that started the coroutine. \<open>Posted h\<close> stands for
  the request made from the structure \<open>h\<close>; how \<^verbatim>\<open>JsonUtility.ToJson\<close> writes it and
  what the server answers are not modelled.
\<close>

datatype 'r outcome =
    NotRecognizing
  | ErrorLogged exn
  | TooFewPoints
  | CoroutineFailed exn
  | Posted "'r handData"

definition ProcessHandTrackingData ::
  "(string \<Rightarrow> 'r option) \<Rightarrow> int \<Rightarrow> connector \<Rightarrow> 'r outcome" where
  "ProcessHandTrackingData parse now c =
     (if \<not> isRecognizing c then NotRecognizing
      else
        (case udpReceive c of
           None \<Rightarrow> ErrorLogged NullReferenceException
         | Some u \<Rightarrow>
            (case data u of
               None \<Rightarrow> ErrorLogged NullReferenceException
             | Some d0 \<Rightarrow>
                (case Remove d0 0 1 of
                   Inl e \<Rightarrow> ErrorLogged e
                 | Inr d1 \<Rightarrow>
                    (case Remove d1 (int (length d1) - 1) 1 of
                       Inl e \<Rightarrow> ErrorLogged e
                     | Inr d2 \<Rightarrow>
                        (let points = Split CHR '','' d2 in
                         if 63 \<le> length points then
                           (case SendHandDataToSignBridge parse (currentSessionId c) now points of
                              Inl e \<Rightarrow> CoroutineFailed e
                            | Inr h \<Rightarrow> Posted h)
                         else TooFewPoints))))))"


subsection \<open>A reference instance of the number parser\<close>

text \<open>
  For evaluation at concrete payloads: \<^verbatim>\<open>float.Parse\<close> restricted to integer literals,
  that is optional white space, an optional sign, one or more decimal digits and
  optional white space. \<^verbatim>\<open>float.Parse\<close> accepts each of these with the same value (as
  long as the integer is a \<^verbatim>\<open>float\<close>), and it rejects, as this instance does, the
  empty token and a token with a bracket or a letter in it.
\<close>

definition is_white :: "char \<Rightarrow> bool" where
  "is_white c = (c \<in> set [CHR '' '', CHR 0x09, CHR 0x0A, CHR 0x0B, CHR 0x0C, CHR 0x0D])"

definition is_digit :: "char \<Rightarrow> bool" where
  "is_digit c = (48 \<le> (of_char c :: nat) \<and> (of_char c :: nat) \<le> 57)"

definition digits_value :: "string \<Rightarrow> nat" where
  "digits_value ds = foldl (\<lambda>a c. 10 * a + (of_char c - 48)) 0 ds"

definition Trim :: "string \<Rightarrow> string" where
  "Trim s = rev (dropWhile is_white (rev (dropWhile is_white s)))"

definition float_Parse :: "string \<Rightarrow> int option" where
  "float_Parse s =
     (case Trim s of
        [] \<Rightarrow> None
      | c # cs \<Rightarrow>
         (let ds = (if c = CHR ''-'' \<or> c = CHR ''+'' then cs else c # cs) in
          if ds \<noteq> [] \<and> list_all is_digit ds
          then Some (if c = CHR ''-'' then - int (digits_value ds) else int (digits_value ds))
          else None))"

subsection \<open>The frame loop and the recognition switch\<close>

definition IsNullOrEmpty :: "string option \<Rightarrow> bool" where
  "IsNullOrEmpty s = (case s of None \<Rightarrow> True | Some t \<Rightarrow> t = [])"

text \<open>
  \<^verbatim>\<open>Update\<close>, called once per rendered frame: \<open>None\<close> when its guards keep it from
  calling \<^verbatim>\<open>ProcessHandTrackingData\<close>.
\<close>

definition Update :: "(string \<Rightarrow> 'r option) \<Rightarrow> int \<Rightarrow> connector \<Rightarrow> 'r outcome option" where
  "Update parse now c =
     (if handTracking c then
        (case udpReceive c of
           None \<Rightarrow> None
         | Some u \<Rightarrow>
            if \<not> IsNullOrEmpty (data u) then Some (ProcessHandTrackingData parse now c)
            else None)
      else None)"

definition ToggleRecognition :: "connector \<Rightarrow> connector" where
  "ToggleRecognition c = c\<lparr>isRecognizing := \<not> isRecognizing c\<rparr>"

definition SetRecognitionState :: "bool \<Rightarrow> connector \<Rightarrow> connector" where
  "SetRecognitionState state c = c\<lparr>isRecognizing := state\<rparr>"

definition GetCurrentSessionId :: "connector \<Rightarrow> string" where
  "GetCurrentSessionId c = currentSessionId c"

text \<open>
  The reply to \<^verbatim>\<open>/api/learning/start-session\<close> as \<^verbatim>\<open>StartLearningSession\<close> sees it: the
  request failed, the body could not be read as a \<^verbatim>\<open>SignBridgeResponse\<close> (the coroutine
  ends with an exception), or a response with its \<^verbatim>\<open>success\<close> and \<^verbatim>\<open>message\<close> fields.
\<close>

record SignBridgeResponse =
  success :: bool
  message :: string

datatype web_result = RequestFailed | BodyUnreadable | Received SignBridgeResponse

definition StartLearningSession :: "web_result \<Rightarrow> connector \<Rightarrow> connector" where
  "StartLearningSession reply c =
     (case reply of
        Received response \<Rightarrow>
          if success response then c\<lparr>currentSessionId := message response\<rparr> else c
      | _ \<Rightarrow> c)"

text \<open>
  What happens to a connector, one event at a time: a click on the recognition button, a
  call of \<^verbatim>\<open>SetRecognitionState\<close>, the answer to a session start, a datagram stored by
  the UDP receiver in its \<^verbatim>\<open>data\<close> field, and a call of \<^verbatim>\<open>Update\<close> at a clock reading.
  The second component lists the requests posted to the recogniser so far.
\<close>

datatype event =
    Toggle
  | SetState bool
  | SessionReply web_result
  | Datagram string
  | Tick int

fun step ::
  "(string \<Rightarrow> 'r option) \<Rightarrow> connector \<times> 'r handData list \<Rightarrow> event \<Rightarrow> connector \<times> 'r handData list" where
  "step parse (c, posted) Toggle = (ToggleRecognition c, posted)"
| "step parse (c, posted) (SetState b) = (SetRecognitionState b c, posted)"
| "step parse (c, posted) (SessionReply r) = (StartLearningSession r c, posted)"
| "step parse (c, posted) (Datagram d) =
     (c\<lparr>udpReceive := map_option (\<lambda>u. u\<lparr>data := Some d\<rparr>) (udpReceive c)\<rparr>, posted)"
| "step parse (c, posted) (Tick now) =
     (case Update parse now c of
        Some (Posted h) \<Rightarrow> (c, posted @ [h])
      | _ \<Rightarrow> (c, posted))"

definition run ::
  "(string \<Rightarrow> 'r option) \<Rightarrow> connector \<times> 'r handData list \<Rightarrow> event list \<Rightarrow> connector \<times> 'r handData list" where
  "run parse st evs = foldl (step parse) st evs"

text \<open>The connector as \<^verbatim>\<open>Start\<close> finds it, with both components assigned.\<close>

definition initial :: connector where
  "initial = \<lparr>isRecognizing = False, currentSessionId = [], handTracking = True,
              udpReceive = Some \<lparr>data = None\<rparr>\<rparr>"

subsection \<open>The sample datagram of the test manager\<close>

text \<open>\<^verbatim>\<open>simulatedData\<close> of \<^verbatim>\<open>SignBridgeTestManager.TestHandData\<close>, character for character.\<close>

definition simulatedData :: string where
  "simulatedData =
     ''[500, 500, 100, 600, 500, 110, 700, 500, 120, 800, 500, 130, 900, 500,'' @
     '' 140, 600, 600, 150, 700, 650, 160, 800, 700, 170, 900, 750, 180, 1000'' @
     '', 800, 190, 500, 700, 200, 600, 750, 210, 700, 800, 220, 800, 850, 230'' @
     '', 900, 900, 240, 1000, 950, 250, 400, 800, 260, 500, 850, 270, 600, 90'' @
     ''0, 280, 700, 950, 290, 800, 1000, 300, 900, 1050, 310, 1000, 1100, 320'' @
     '', 1100, 1150, 330, 1200, 1200, 340, 1300, 1250, 350, 1400, 1300, 360, '' @
     ''1500, 1350, 370, 1600, 1400, 380, 1700, 1450, 390, 1800, 1500, 400, 19'' @
     ''00, 1550, 410, 2000, 1600, 420, 2100, 1650, 430, 2200, 1700, 440, 2300'' @
     '', 1750, 450, 2400, 1800, 460, 2500, 1850, 470, 2600, 1900, 480, 2700, '' @
     ''1950, 490, 2800, 2000, 500, 2900, 2050, 510, 3000, 2100, 520, 3100, 21'' @
     ''50, 530, 3200, 2200, 540, 3300, 2250, 550, 3400, 2300, 560, 3500, 2350'' @
     '', 570, 3600, 2400, 580, 3700, 2450, 590, 3800, 2500, 600, 3900, 2550, '' @
     ''610, 4000, 2600, 620, 4100, 2650, 630]''"

subsection \<open>Reading the decoder off the payload\<close>

text \<open>
  Two functions that say what a decoded frame is, for the statements below: the values
  of a token list when every token is numeric, and the landmarks of a list of values
  taken three at a time.
\<close>

definition parse_all :: "(string \<Rightarrow> 'r option) \<Rightarrow> string list \<Rightarrow> 'r list option" where
  "parse_all parse ts =
     (if list_all (\<lambda>t. parse t \<noteq> None) ts then Some (map (\<lambda>t. the (parse t)) ts) else None)"

fun triples :: "'r list \<Rightarrow> 'r landmark list" where
  "triples (a # b # c # rest) = Landmark a b c # triples rest"
| "triples _ = []"


text \<open>The text between the first and the last character of a payload, split at commas.\<close>

definition tokens :: "string \<Rightarrow> string list" where
  "tokens d = Split CHR '','' (butlast (tl d))"

subsection \<open>The producer's encoding\<close>

fun Join :: "string \<Rightarrow> string list \<Rightarrow> string" where
  "Join sep [] = []"
| "Join sep [t] = t"
| "Join sep (t # ts) = t @ sep @ Join sep ts"


text \<open>Decimal digits of an integer, the reference instance of \<open>render\<close>.\<close>

definition digit_char :: "nat \<Rightarrow> char" where
  "digit_char d = char_of (48 + d)"

fun str_nat :: "nat \<Rightarrow> string" where
  "str_nat n = (if n < 10 then [digit_char n] else str_nat (n div 10) @ [digit_char (n mod 10)])"

declare str_nat.simps [simp del]

definition str_int :: "int \<Rightarrow> string" where
  "str_int i = (if i < 0 then CHR ''-'' # str_nat (nat (- i)) else str_nat (nat i))"

text \<open>The events that deliver a frame: a datagram arriving, and a frame of the game loop.\<close>

fun delivery :: "event \<Rightarrow> bool" where
  "delivery (Datagram d) = True"
| "delivery (Tick now) = True"
| "delivery _ = False"

section \<open>The desktop shell: the \<^verbatim>\<open>recognize-sign\<close> handler\<close>

text \<open>
  Source: \<^verbatim>\<open>setupIPC\<close> in \<^verbatim>\<open>desktop/electron/main.js\<close>, handler by handler. JavaScript
  numbers are modelled as reals; \<open>random\<close> is the value \<^verbatim>\<open>Math.random()\<close> returns, which
  lies in \<open>[0, 1)\<close>. The code takes the products \<open>random * 5\<close> and \<open>random * 20\<close> in double
  arithmetic, where they are rounded: they stay under 5 and 20 as the real products do,
  so the index stays within the table, but at some draws the rounded product reaches the
  next integer and the index is one more than the floor of the real product (the double
  nearest 0.6 times 5 is 3). The statements about these functions hold whichever of the
  two indices a draw selects; the draws 0, 1/2, 7/10 and 99/100 used as examples select
  the same index either way.
\<close>

record sign =
  name :: string
  description :: string
  confidence :: real

definition mockSigns :: "sign list" where
  "mockSigns =
     [\<lparr>name = ''hello'', description = ''Wave hand in greeting motion'', confidence = 0.9\<rparr>,
      \<lparr>name = ''yes'', description = ''Make fist and nod up and down'', confidence = 0.9\<rparr>,
      \<lparr>name = ''no'', description = ''Index finger shakes side to side'', confidence = 0.85\<rparr>,
      \<lparr>name = ''thank_you'', description = ''Flat hand touches chin and moves forward'',
        confidence = 0.85\<rparr>,
      \<lparr>name = ''please'', description = ''Flat hand circles on chest'', confidence = 0.85\<rparr>]"

record recognition =
  result_sign :: string
  result_confidence :: real
  result_description :: string
  ai_enabled :: bool

text \<open>
  An exception a handler's \<^verbatim>\<open>catch\<close> block receives; the handler answers
  \<^verbatim>\<open>{ success: false, error: error.message }\<close>.
\<close>

datatype js_error =
    ReferenceError string
  | TypeError
  | SyntaxError
  | SystemError string

datatype 'a reply = Success 'a | Failure js_error | Refused string

text \<open>
  Indexing an array: \<^verbatim>\<open>undefined\<close> outside the array, and reading a property of
  \<^verbatim>\<open>undefined\<close> raises a \<^verbatim>\<open>TypeError\<close>.
\<close>

definition element :: "'a list \<Rightarrow> int \<Rightarrow> 'a option" where
  "element xs i = (if 0 \<le> i \<and> i < int (length xs) then Some (xs ! nat i) else None)"

definition recognize_sign :: "real \<Rightarrow> 'image \<Rightarrow> recognition reply" where
  "recognize_sign random imageData =
     (case element mockSigns \<lfloor>random * real (length mockSigns)\<rfloor> of
        None \<Rightarrow> Failure TypeError
      | Some randomSign \<Rightarrow>
          Success \<lparr>result_sign = name randomSign,
                   result_confidence = confidence randomSign,
                   result_description = description randomSign,
                   ai_enabled = True\<rparr>)"

section \<open>The desktop shell: saving and loading a conversation\<close>

text \<open>
  The file system is the content of each existing file and the paths that refuse a
  write. \<^verbatim>\<open>JSON.stringify\<close> and \<^verbatim>\<open>JSON.parse\<close> belong to the language and are the
  parameters \<open>stringify\<close> and \<open>parse\<close>, \<open>None\<close> where they raise.
\<close>

record filesystem =
  files :: "string \<rightharpoonup> string"
  readonly :: "string list"

definition writeFileSync :: "filesystem \<Rightarrow> string \<Rightarrow> string \<Rightarrow> js_error + filesystem" where
  "writeFileSync fs filePath content =
     (if filePath \<in> set (readonly fs) then Inl (SystemError ''EACCES'')
      else Inr (fs\<lparr>files := (files fs)(filePath \<mapsto> content)\<rparr>))"

definition readFileSync :: "filesystem \<Rightarrow> string \<Rightarrow> js_error + string" where
  "readFileSync fs filePath =
     (case files fs filePath of None \<Rightarrow> Inl (SystemError ''ENOENT'') | Some content \<Rightarrow> Inr content)"

record dialog_result =
  canceled :: bool
  filePath :: string

text \<open>
  The names bound where the handlers run: the module's \<^verbatim>\<open>require\<close>d names, its class and
  its instance, and the handler's own parameters and local. The names the language and
  the runtime bind globally are left out; \<^verbatim>\<open>signbridge_conversation_\<close>, the one name
  looked up below, is not among them.
\<close>

definition scope :: "string list" where
  "scope = [''app'', ''BrowserWindow'', ''Menu'', ''ipcMain'', ''dialog'', ''shell'', ''path'',
            ''fs'', ''SignBridgeDesktop'', ''signBridgeApp'', ''event'', ''conversationData'',
            ''result'']"

text \<open>Reading an identifier: a name that is not bound raises a \<^verbatim>\<open>ReferenceError\<close>.\<close>

definition read_identifier :: "string \<Rightarrow> js_error + unit" where
  "read_identifier x = (if x \<in> set scope then Inr () else Inl (ReferenceError x))"

text \<open>
  The \<^verbatim>\<open>save-conversation\<close> handler. The options of the save dialog are built first,
  and their \<^verbatim>\<open>defaultPath\<close> is the expression \<^verbatim>\<open>signbridge_conversation_.json\<close>, a
  property of the identifier \<^verbatim>\<open>signbridge_conversation_\<close>. \<open>choice\<close> is what the dialog
  returns once it is shown.
\<close>

definition save_conversation ::
  "('v \<Rightarrow> string option) \<Rightarrow> dialog_result \<Rightarrow> 'v \<Rightarrow> filesystem \<Rightarrow> filesystem \<times> string reply" where
  "save_conversation stringify choice conversationData fs =
     (case read_identifier ''signbridge_conversation_'' of
        Inl e \<Rightarrow> (fs, Failure e)
      | Inr _ \<Rightarrow>
          if \<not> canceled choice then
            (case stringify conversationData of
               None \<Rightarrow> (fs, Failure TypeError)
             | Some text \<Rightarrow>
                (case writeFileSync fs (filePath choice) text of
                   Inl e \<Rightarrow> (fs, Failure e)
                 | Inr fs' \<Rightarrow> (fs', Success (filePath choice))))
          else (fs, Refused ''Save cancelled''))"

definition load_conversation ::
  "(string \<Rightarrow> 'v option) \<Rightarrow> string \<Rightarrow> filesystem \<Rightarrow> 'v reply" where
  "load_conversation parse path fs =
     (case readFileSync fs path of
        Inl e \<Rightarrow> Failure e
      | Inr text \<Rightarrow>
         (case parse text of
            None \<Rightarrow> Failure SyntaxError
          | Some conversation \<Rightarrow> Success conversation))"

section \<open>The mobile app: \<^verbatim>\<open>capturePhoto\<close>\<close>

definition signsData :: "sign list" where
  "signsData =
     [\<lparr>name = ''hello'', description = ''Wave hand in greeting motion'', confidence = 0.9\<rparr>,
      \<lparr>name = ''yes'', description = ''Make fist and nod up and down'', confidence = 0.9\<rparr>,
      \<lparr>name = ''no'', description = ''Index finger shakes side to side'', confidence = 0.85\<rparr>,
      \<lparr>name = ''thank_you'', description = ''Flat hand touches chin and moves forward'',
        confidence = 0.85\<rparr>,
      \<lparr>name = ''please'', description = ''Flat hand circles on chest'', confidence = 0.85\<rparr>,
      \<lparr>name = ''sorry'', description = ''Closed fist circles on chest'', confidence = 0.8\<rparr>,
      \<lparr>name = ''help'', description = ''Closed fist taps on open palm'', confidence = 0.85\<rparr>,
      \<lparr>name = ''water'', description = ''W handshape taps chin'', confidence = 0.8\<rparr>,
      \<lparr>name = ''food'', description = ''Fingertips touch mouth'', confidence = 0.85\<rparr>,
      \<lparr>name = ''bathroom'', description = ''T handshape shakes'', confidence = 0.8\<rparr>,
      \<lparr>name = ''love'', description = ''Hands form heart shape'', confidence = 0.9\<rparr>,
      \<lparr>name = ''happy'', description = ''Both hands move up with smile'', confidence = 0.8\<rparr>,
      \<lparr>name = ''sad'', description = ''Hands move down with frown'', confidence = 0.8\<rparr>,
      \<lparr>name = ''angry'', description = ''Fist shakes'', confidence = 0.85\<rparr>,
      \<lparr>name = ''surprised'', description = ''Hands move up quickly'', confidence = 0.8\<rparr>,
      \<lparr>name = ''tired'', description = ''Hands on face, eyes closed'', confidence = 0.8\<rparr>,
      \<lparr>name = ''hungry'', description = ''Hand moves to mouth'', confidence = 0.85\<rparr>,
      \<lparr>name = ''thirsty'', description = ''Hand moves to throat'', confidence = 0.85\<rparr>,
      \<lparr>name = ''emergency'', description = ''Hand waves frantically'', confidence = 0.9\<rparr>,
      \<lparr>name = ''stop'', description = ''Hand forms stop sign'', confidence = 0.95\<rparr>]"

record entry =
  entry_id :: int
  entry_timestamp :: string
  entry_sign :: string
  entry_description :: string
  entry_confidence :: real

record mobile =
  currentSign :: "sign option"
  shownConfidence :: real
  conversationHistory :: "entry list"

text \<open>
  \<^verbatim>\<open>capturePhoto\<close> on the component's state. \<open>camera\<close> says whether \<^verbatim>\<open>cameraRef.current\<close>
  is set, \<open>photo\<close> whether \<^verbatim>\<open>takePhoto\<close> returned rather than raised, \<open>random\<close> is the
  value of \<^verbatim>\<open>Math.random()\<close>, \<open>now\<close> and \<open>clock\<close> are \<^verbatim>\<open>Date.now()\<close> and the time of day
  as text. An index outside the table leaves \<^verbatim>\<open>undefined\<close> as the current sign before
  the read of its confidence raises. The alert shown at the end changes no state and is
  left out.
\<close>

definition capturePhoto :: "bool \<Rightarrow> bool \<Rightarrow> real \<Rightarrow> int \<Rightarrow> string \<Rightarrow> mobile \<Rightarrow> mobile" where
  "capturePhoto camera photo random now clock s =
     (if camera then
        (if photo then
           (case element signsData \<lfloor>random * real (length signsData)\<rfloor> of
              None \<Rightarrow> s\<lparr>currentSign := None\<rparr>
            | Some randomSign \<Rightarrow>
                s\<lparr>currentSign := Some randomSign,
                  shownConfidence := confidence randomSign,
                  conversationHistory := conversationHistory s @
                    [\<lparr>entry_id = now, entry_timestamp = clock, entry_sign = name randomSign,
                      entry_description = description randomSign,
                      entry_confidence = confidence randomSign\<rparr>]\<rparr>)
         else s)
      else s)"

section \<open>The backend endpoints of the integration guide\<close>

text \<open>
  Source: the Python endpoints \<^verbatim>\<open>start_hand_tracking\<close> and \<^verbatim>\<open>process_hand_landmarks\<close>.
  \<open>py_int\<close> is \<^verbatim>\<open>int\<close> on a float, which truncates towards zero; the clock reading
  \<^verbatim>\<open>time.time()\<close> is the parameter \<open>t\<close>, in seconds.
\<close>

definition py_int :: "real \<Rightarrow> int" where
  "py_int t = (if 0 \<le> t then \<lfloor>t\<rfloor> else \<lceil>t\<rceil>)"

record started =
  started_success :: bool
  started_session_id :: string
  started_message :: string

definition start_hand_tracking :: "real \<Rightarrow> started" where
  "start_hand_tracking t =
     \<lparr>started_success = True,
      started_session_id = ''ht_'' @ str_int (py_int t),
      started_message = ''Hand tracking session started''\<rparr>"

record 'l landmarks_request =
  request_landmarks :: "'l list option"
  request_session_id :: "string option"

record recognised =
  recognised_sign :: string
  recognised_category :: string
  recognised_confidence :: real

definition recognize_sign_from_landmarks :: "'l list \<Rightarrow> recognised" where
  "recognize_sign_from_landmarks ls =
     \<lparr>recognised_sign = ''Hello'', recognised_category = ''greeting'',
      recognised_confidence = 0.92\<rparr>"

record landmarks_response =
  response_success :: bool
  response_sign :: string
  response_category :: string
  response_confidence :: real
  response_session_id :: "string option"

text \<open>
  \<^verbatim>\<open>process_hand_landmarks\<close>: \<open>None\<close> is a request without a JSON body, on which
  \<^verbatim>\<open>data.get\<close> raises; the handler then answers with status 500 (\<open>Inl\<close>).
\<close>

datatype py_error = AttributeError

definition process_hand_landmarks ::
  "'l landmarks_request option \<Rightarrow> py_error + landmarks_response" where
  "process_hand_landmarks request_json =
     (case request_json of
        None \<Rightarrow> Inl AttributeError
      | Some body \<Rightarrow>
         (let ls = (case request_landmarks body of None \<Rightarrow> [] | Some l \<Rightarrow> l);
              result = recognize_sign_from_landmarks ls
          in Inr \<lparr>response_success = True,
                    response_sign = recognised_sign result,
                    response_category = recognised_category result,
                    response_confidence = recognised_confidence result,
                    response_session_id = request_session_id body\<rparr>))"

section \<open>Properties of the decoder\<close>

subsection \<open>The conversion loop\<close>

lemma parse_all_Nil [simp]: "parse_all parse [] = Some []"
  by (simp add: parse_all_def)

lemma parse_all_Cons:
  "parse_all parse (t # ts) =
     (case parse t of
        None \<Rightarrow> None
      | Some v \<Rightarrow> (case parse_all parse ts of None \<Rightarrow> None | Some vs \<Rightarrow> Some (v # vs)))"
  by (auto simp: parse_all_def split: option.splits)

lemma parse_all_length: "parse_all parse ts = Some vs \<Longrightarrow> length vs = length ts"
  by (auto simp: parse_all_def split: if_splits)

lemma parse_all_None_iff: "parse_all parse ts = None \<longleftrightarrow> (\<exists>t \<in> set ts. parse t = None)"
  by (auto simp: parse_all_def list_all_iff)


lemma window_step:
  assumes "i < 21" "63 \<le> length pts"
  shows "take (63 - 3 * i) (drop (3 * i) pts) =
         pts ! (i * 3) # pts ! (i * 3 + 1) # pts ! (i * 3 + 2) #
         take (63 - 3 * Suc i) (drop (3 * Suc i) pts)"
proof -
  have a: "drop (3 * i) pts = pts ! (3 * i) # drop (Suc (3 * i)) pts"
    using assms by (simp add: Cons_nth_drop_Suc)
  have b: "drop (Suc (3 * i)) pts = pts ! (Suc (3 * i)) # drop (Suc (Suc (3 * i))) pts"
    using assms by (simp add: Cons_nth_drop_Suc)
  have c: "drop (Suc (Suc (3 * i))) pts =
           pts ! (Suc (Suc (3 * i))) # drop (Suc (Suc (Suc (3 * i)))) pts"
    using assms by (simp add: Cons_nth_drop_Suc)
  have d: "63 - 3 * i = Suc (Suc (Suc (63 - 3 * Suc i)))"
    using assms by simp
  have e: "3 * Suc i = Suc (Suc (Suc (3 * i)))" by simp
  show ?thesis
    unfolding a b c d e by (simp add: mult.commute)
qed

lemma convert_points_window:
  assumes "63 \<le> length pts" "i \<le> 21"
  shows "convert_points parse pts i acc =
         (case parse_all parse (take (63 - 3 * i) (drop (3 * i) pts)) of
            None \<Rightarrow> Inl FormatException
          | Some vs \<Rightarrow> Inr (acc @ triples vs))"
  using assms
proof (induction parse pts i acc rule: convert_points.induct)
  case (1 parse handPoints i acc)
  show ?case
  proof (cases "i < 21")
    case False
    with "1.prems" have "i = 21" by simp
    then show ?thesis by (simp add: convert_points.simps)
  next
    case True
    with "1.prems" have inr: "i * 3 + 2 < length handPoints" by simp
    note w = window_step [OF True "1.prems"(1)]
    show ?thesis
    proof (cases "parse (handPoints ! (i * 3))")
      case None
      then show ?thesis
        using True inr by (subst convert_points.simps) (simp add: w parse_all_Cons)
    next
      case (Some px)
      note px = this
      show ?thesis
      proof (cases "parse (handPoints ! (i * 3 + 1))")
        case None
        then show ?thesis
          using True inr px by (subst convert_points.simps) (simp add: w parse_all_Cons)
      next
        case (Some py)
        note py = this
        show ?thesis
        proof (cases "parse (handPoints ! (i * 3 + 2))")
          case None
          then show ?thesis
            using True inr px py by (subst convert_points.simps) (simp add: w parse_all_Cons)
        next
          case (Some pz)
          have ih: "convert_points parse handPoints (Suc i) (acc @ [Landmark px py pz]) =
                (case parse_all parse (take (63 - 3 * Suc i) (drop (3 * Suc i) handPoints)) of
                   None \<Rightarrow> Inl FormatException
                 | Some vs \<Rightarrow> Inr ((acc @ [Landmark px py pz]) @ triples vs))"
            using "1.IH"(1) [OF True inr px py Some "1.prems"(1)] True by simp
          show ?thesis
            using True inr px py Some
            by (subst convert_points.simps) (simp add: w parse_all_Cons ih split: option.splits)
        qed
      qed
    qed
  qed
qed

lemma SendHandDataToSignBridge_63:
  assumes "63 \<le> length pts"
  shows "SendHandDataToSignBridge parse sid now pts =
         (case parse_all parse (take 63 pts) of
            None \<Rightarrow> Inl FormatException
          | Some vs \<Rightarrow> Inr \<lparr>landmarks = triples vs, session_id = sid, timestamp = now\<rparr>)"
  using convert_points_window [OF assms, of 0 parse "[]"]
  by (simp add: SendHandDataToSignBridge_def split: option.splits)

lemma length_triples: "length (triples vs) = length vs div 3"
  by (induction vs rule: triples.induct) simp_all



subsection \<open>Removing the first and the last character\<close>

lemma Remove_first: "Remove d 0 1 = (if d = [] then Inl ArgumentOutOfRangeException else Inr (tl d))"
  by (cases d) (simp_all add: Remove_def)

lemma Remove_last:
  "Remove d (int (length d) - 1) 1 =
     (if d = [] then Inl ArgumentOutOfRangeException else Inr (butlast d))"
proof (cases "d = []")
  case True
  then show ?thesis by (simp add: Remove_def)
next
  case False
  then have "0 < length d" by simp
  then have "nat (int (length d) - 1) = length d - 1" by simp
  with False show ?thesis
    by (simp add: Remove_def butlast_conv_take)
qed

lemma ProcessHandTrackingData_decode:
  assumes "isRecognizing c" "udpReceive c = Some u" "data u = Some d"
  shows "ProcessHandTrackingData parse now c =
         (if length d < 2 then ErrorLogged ArgumentOutOfRangeException
          else if length (tokens d) < 63 then TooFewPoints
          else (case parse_all parse (take 63 (tokens d)) of
                  None \<Rightarrow> CoroutineFailed FormatException
                | Some vs \<Rightarrow>
                    Posted \<lparr>landmarks = triples vs, session_id = currentSessionId c,
                            timestamp = now\<rparr>))"
proof (cases "length d < 2")
  case True
  then consider "d = []" | a where "d = [a]"
    by (cases d) (auto simp: less_Suc_eq length_Suc_conv)
  then show ?thesis
    using assms by cases (simp_all add: ProcessHandTrackingData_def Remove_def)
next
  case False
  then have ne: "d \<noteq> []" "tl d \<noteq> []"
    by (cases d; cases "tl d"; simp)+
  show ?thesis
  proof (cases "length (tokens d) < 63")
    case True
    then show ?thesis
      using assms False ne
      by (simp add: ProcessHandTrackingData_def Remove_first Remove_last tokens_def Let_def
            del: length_tl)
  next
    case long: False
    then have "63 \<le> length (Split CHR '','' (butlast (tl d)))"
      by (simp add: tokens_def)
    then have send:
      "SendHandDataToSignBridge parse (currentSessionId c) now (Split CHR '','' (butlast (tl d))) =
         (case parse_all parse (take 63 (Split CHR '','' (butlast (tl d)))) of
            None \<Rightarrow> Inl FormatException
          | Some vs \<Rightarrow>
              Inr \<lparr>landmarks = triples vs, session_id = currentSessionId c, timestamp = now\<rparr>)"
      by (rule SendHandDataToSignBridge_63)
    show ?thesis
      using assms False ne long
      by (simp add: ProcessHandTrackingData_def Remove_first Remove_last tokens_def Let_def send
            del: length_tl split: option.splits)
  qed
qed

subsection \<open>Splitting and joining\<close>

lemma Split_not_Nil [simp]: "Split sep s \<noteq> []"
  by (induction s) (auto split: list.splits)




subsection \<open>Which payloads are decoded\<close>

lemma sample_tokens:
  "tokens simulatedData =
     [
       ''500'', '' 500'', '' 100'', '' 600'', '' 500'', '' 110'', '' 700'', '' 500'',
       '' 120'', '' 800'', '' 500'', '' 130'', '' 900'', '' 500'', '' 140'', '' 600'',
       '' 600'', '' 150'', '' 700'', '' 650'', '' 160'', '' 800'', '' 700'', '' 170'',
       '' 900'', '' 750'', '' 180'', '' 1000'', '' 800'', '' 190'', '' 500'', '' 700'',
       '' 200'', '' 600'', '' 750'', '' 210'', '' 700'', '' 800'', '' 220'', '' 800'',
       '' 850'', '' 230'', '' 900'', '' 900'', '' 240'', '' 1000'', '' 950'', '' 250'',
       '' 400'', '' 800'', '' 260'', '' 500'', '' 850'', '' 270'', '' 600'', '' 900'',
       '' 280'', '' 700'', '' 950'', '' 290'', '' 800'', '' 1000'', '' 300'', '' 900'',
       '' 1050'', '' 310'', '' 1000'', '' 1100'', '' 320'', '' 1100'', '' 1150'',
       '' 330'', '' 1200'', '' 1200'', '' 340'', '' 1300'', '' 1250'', '' 350'',
       '' 1400'', '' 1300'', '' 360'', '' 1500'', '' 1350'', '' 370'', '' 1600'',
       '' 1400'', '' 380'', '' 1700'', '' 1450'', '' 390'', '' 1800'', '' 1500'',
       '' 400'', '' 1900'', '' 1550'', '' 410'', '' 2000'', '' 1600'', '' 420'',
       '' 2100'', '' 1650'', '' 430'', '' 2200'', '' 1700'', '' 440'', '' 2300'',
       '' 1750'', '' 450'', '' 2400'', '' 1800'', '' 460'', '' 2500'', '' 1850'',
       '' 470'', '' 2600'', '' 1900'', '' 480'', '' 2700'', '' 1950'', '' 490'',
       '' 2800'', '' 2000'', '' 500'', '' 2900'', '' 2050'', '' 510'', '' 3000'',
       '' 2100'', '' 520'', '' 3100'', '' 2150'', '' 530'', '' 3200'', '' 2200'',
       '' 540'', '' 3300'', '' 2250'', '' 550'', '' 3400'', '' 2300'', '' 560'',
       '' 3500'', '' 2350'', '' 570'', '' 3600'', '' 2400'', '' 580'', '' 3700'',
       '' 2450'', '' 590'', '' 3800'', '' 2500'', '' 600'', '' 3900'', '' 2550'',
       '' 610'', '' 4000'', '' 2600'', '' 620'', '' 4100'', '' 2650'', '' 630'']"
  by code_simp

lemma sample_values:
  "parse_all float_Parse (take 63 (tokens simulatedData)) =
     Some [
            500, 500, 100, 600, 500, 110, 700, 500, 120, 800, 500, 130, 900, 500, 140,
            600, 600, 150, 700, 650, 160, 800, 700, 170, 900, 750, 180, 1000, 800, 190,
            500, 700, 200, 600, 750, 210, 700, 800, 220, 800, 850, 230, 900, 900, 240,
            1000, 950, 250, 400, 800, 260, 500, 850, 270, 600, 900, 280, 700, 950, 290,
            800, 1000, 300]"
  unfolding sample_tokens by code_simp

text \<open>
  C1, as the code has it. While recognition is on, a payload is decoded into a posted
  frame exactly when it has at least two characters, the text between its first and its
  last character splits at commas into at least 63 tokens, and each of the first 63
  tokens is numeric. The frame then has exactly 21 landmarks, the first 63 values three
  at a time; tokens after the 63rd are not looked at. Every other payload posts nothing:
  the exception is logged, the payload is dropped silently, or the coroutine ends with a
  \<^verbatim>\<open>FormatException\<close>.
\<close>

theorem ProcessHandTrackingData_posts_iff:
  assumes "isRecognizing c" "udpReceive c = Some u" "data u = Some d"
  shows "((\<exists>h. ProcessHandTrackingData parse now c = Posted h) \<longleftrightarrow>
            2 \<le> length d \<and> 63 \<le> length (tokens d) \<and>
            list_all (\<lambda>t. parse t \<noteq> None) (take 63 (tokens d))) \<and>
         (\<forall>h. ProcessHandTrackingData parse now c = Posted h \<longrightarrow>
            length (landmarks h) = 21 \<and>
            landmarks h = triples (map (\<lambda>t. the (parse t)) (take 63 (tokens d)))) \<and>
         ProcessHandTrackingData parse now c \<in>
           {ErrorLogged ArgumentOutOfRangeException, TooFewPoints,
            CoroutineFailed FormatException} \<union> range Posted"
proof -
  note dec = ProcessHandTrackingData_decode [OF assms, of parse now]
  have len: "length (triples (map (\<lambda>t. the (parse t)) (take 63 (tokens d)))) = 21"
    if "63 \<le> length (tokens d)"
    using that by (simp add: length_triples)
  show ?thesis
    unfolding dec using len
    by (auto simp: parse_all_def split: if_splits)
qed

theorem ProcessHandTrackingData_posts_iff_witness:
  "(\<exists>h. ProcessHandTrackingData float_Parse 0
          (initial\<lparr>isRecognizing := True,
                   udpReceive := Some \<lparr>data = Some (''['' @ Join '','' (replicate 63 ''7'') @ '']'')\<rparr>\<rparr>)
        = Posted h \<and> length (landmarks h) = 21) \<and>
   length (tokens (''['' @ Join '','' (replicate 63 ''7'') @ '']'')) = 63"
proof -
  let ?d = "''['' @ Join '','' (replicate 63 ''7'') @ '']''"
  let ?c = "initial\<lparr>isRecognizing := True, udpReceive := Some \<lparr>data = Some ?d\<rparr>\<rparr>"
  have a: "isRecognizing ?c" by simp
  have b: "udpReceive ?c = Some \<lparr>data = Some ?d\<rparr>" by simp
  have c: "data \<lparr>data = Some ?d\<rparr> = Some ?d" by simp
  have d: "2 \<le> length ?d \<and> 63 \<le> length (tokens ?d) \<and>
       list_all (\<lambda>t. float_Parse t \<noteq> None) (take 63 (tokens ?d))"
    by code_simp
  have e: "length (tokens ?d) = 63" by code_simp
  from ProcessHandTrackingData_posts_iff [OF a b c, of float_Parse 0] d e show ?thesis
    by blast
qed

text \<open>
  C1 as stated fails on the repository's own sample: \<open>simulatedData\<close> carries 162 values,
  54 landmarks' worth, and is decoded into a frame of its first 21 landmarks. A payload
  of 64 values, which is no multiple of 3, is decoded as well.
\<close>

theorem sample_of_162_values_is_decoded:
  "length (tokens simulatedData) = 162 \<and>
   ProcessHandTrackingData float_Parse 0
     (initial\<lparr>isRecognizing := True, udpReceive := Some \<lparr>data = Some simulatedData\<rparr>\<rparr>) =
   Posted
     \<lparr>landmarks =
        [
         Landmark 500 500 100, Landmark 600 500 110, Landmark 700 500 120,
         Landmark 800 500 130, Landmark 900 500 140, Landmark 600 600 150,
         Landmark 700 650 160, Landmark 800 700 170, Landmark 900 750 180,
         Landmark 1000 800 190, Landmark 500 700 200, Landmark 600 750 210,
         Landmark 700 800 220, Landmark 800 850 230, Landmark 900 900 240,
         Landmark 1000 950 250, Landmark 400 800 260, Landmark 500 850 270,
         Landmark 600 900 280, Landmark 700 950 290, Landmark 800 1000 300],
      session_id = [], timestamp = 0\<rparr> \<and>
   length (tokens (''['' @ Join '','' (replicate 64 ''0'') @ '']'')) = 64 \<and>
   ProcessHandTrackingData float_Parse 0
     (initial\<lparr>isRecognizing := True,
              udpReceive := Some \<lparr>data = Some (''['' @ Join '','' (replicate 64 ''0'') @ '']'')\<rparr>\<rparr>) =
   Posted \<lparr>landmarks = replicate 21 (Landmark 0 0 0), session_id = [], timestamp = 0\<rparr>"
proof -
  let ?c = "initial\<lparr>isRecognizing := True, udpReceive := Some \<lparr>data = Some simulatedData\<rparr>\<rparr>"
  have n: "length (tokens simulatedData) = 162"
    unfolding sample_tokens by simp
  have l: "\<not> length simulatedData < 2"
    by code_simp
  have i: "currentSessionId ?c = []"
    by (simp add: initial_def)
  have s: "ProcessHandTrackingData float_Parse 0 ?c =
     Posted
     \<lparr>landmarks =
        [
         Landmark 500 500 100, Landmark 600 500 110, Landmark 700 500 120,
         Landmark 800 500 130, Landmark 900 500 140, Landmark 600 600 150,
         Landmark 700 650 160, Landmark 800 700 170, Landmark 900 750 180,
         Landmark 1000 800 190, Landmark 500 700 200, Landmark 600 750 210,
         Landmark 700 800 220, Landmark 800 850 230, Landmark 900 900 240,
         Landmark 1000 950 250, Landmark 400 800 260, Landmark 500 850 270,
         Landmark 600 900 280, Landmark 700 950 290, Landmark 800 1000 300],
      session_id = [], timestamp = 0\<rparr>"
    by (subst ProcessHandTrackingData_decode [of ?c "\<lparr>data = Some simulatedData\<rparr>" simulatedData])
       (simp_all add: n l i sample_values)
  have m: "length (tokens (''['' @ Join '','' (replicate 64 ''0'') @ '']'')) = 64"
    by code_simp
  have z: "ProcessHandTrackingData float_Parse 0
     (initial\<lparr>isRecognizing := True,
              udpReceive := Some \<lparr>data = Some (''['' @ Join '','' (replicate 64 ''0'') @ '']'')\<rparr>\<rparr>) =
     Posted \<lparr>landmarks = replicate 21 (Landmark 0 0 0), session_id = [], timestamp = 0\<rparr>"
    by code_simp
  from n s m z show ?thesis by simp
qed

subsection \<open>A token that is not a number\<close>

lemma nonnumeric_token_ends_coroutine:
  assumes "isRecognizing c" "udpReceive c = Some u" "data u = Some d"
    and "2 \<le> length d" "63 \<le> length (tokens d)"
    and "t \<in> set (take 63 (tokens d))" "parse t = None"
  shows "ProcessHandTrackingData parse now c = CoroutineFailed FormatException"
proof -
  have "parse_all parse (take 63 (tokens d)) = None"
    using assms(6,7) by (auto simp: parse_all_None_iff)
  with assms(4,5) show ?thesis
    by (simp add: ProcessHandTrackingData_decode [OF assms(1-3)])
qed

text \<open>
  C2 at a payload of 63 tokens whose first token is the letter \<open>x\<close>: the call does not end
  in the \<^verbatim>\<open>catch\<close> block of \<^verbatim>\<open>ProcessHandTrackingData\<close> (that would be \<open>ErrorLogged\<close>);
  \<^verbatim>\<open>float.Parse\<close> raises inside the coroutine, which ends with the exception. Nothing is
  posted. A payload too short to lose two characters, by contrast, is caught and logged.
\<close>

theorem nonnumeric_payload_raises_in_coroutine:
  "ProcessHandTrackingData float_Parse 0
     (initial\<lparr>isRecognizing := True,
              udpReceive := Some \<lparr>data = Some (''[x'' @ concat (replicate 62 '',0'') @ '']'')\<rparr>\<rparr>) =
   CoroutineFailed FormatException \<and>
   length (tokens (''[x'' @ concat (replicate 62 '',0'') @ '']'')) = 63 \<and>
   ProcessHandTrackingData float_Parse 0
     (initial\<lparr>isRecognizing := True, udpReceive := Some \<lparr>data = Some ''[''\<rparr>\<rparr>) =
   ErrorLogged ArgumentOutOfRangeException"
  by code_simp

subsection \<open>Round trip through the wire form\<close>


lemma tokens_wrapped: "tokens (a # body @ [b]) = Split CHR '','' body"
  by (simp add: tokens_def butlast_append)



subsection \<open>The first and the last character\<close>

text \<open>
  C6, as the code has it. Decoding removes exactly the first and the last character of a
  payload, whatever they are, and splits what is left at commas: a payload \<open>a # body @ [b]\<close>
  is decoded as the bracketed \<open>[body]\<close> is, and the outcome depends on \<open>body\<close> alone.
\<close>

theorem first_and_last_character_are_dropped:
  "ProcessHandTrackingData parse now (c\<lparr>udpReceive := Some \<lparr>data = Some (a # body @ [b])\<rparr>\<rparr>) =
   ProcessHandTrackingData parse now (c\<lparr>udpReceive := Some \<lparr>data = Some (''['' @ body @ '']'')\<rparr>\<rparr>)
   \<and>
   ProcessHandTrackingData parse now (c\<lparr>udpReceive := Some \<lparr>data = Some (a # body @ [b])\<rparr>\<rparr>) =
     (if \<not> isRecognizing c then NotRecognizing
      else if length (Split CHR '','' body) < 63 then TooFewPoints
      else (case parse_all parse (take 63 (Split CHR '','' body)) of
              None \<Rightarrow> CoroutineFailed FormatException
            | Some vs \<Rightarrow>
                Posted \<lparr>landmarks = triples vs, session_id = currentSessionId c,
                        timestamp = now\<rparr>))"
proof -
  have main: "ProcessHandTrackingData parse now
                (c\<lparr>udpReceive := Some \<lparr>data = Some (a' # body @ [b'])\<rparr>\<rparr>) =
     (if \<not> isRecognizing c then NotRecognizing
      else if length (Split CHR '','' body) < 63 then TooFewPoints
      else (case parse_all parse (take 63 (Split CHR '','' body)) of
              None \<Rightarrow> CoroutineFailed FormatException
            | Some vs \<Rightarrow>
                Posted \<lparr>landmarks = triples vs, session_id = currentSessionId c,
                        timestamp = now\<rparr>))" for a' b'
  proof (cases "isRecognizing c")
    case False
    then show ?thesis by (simp add: ProcessHandTrackingData_def)
  next
    case True
    let ?d = "a' # body @ [b']"
    let ?c = "c\<lparr>udpReceive := Some \<lparr>data = Some ?d\<rparr>\<rparr>"
    show ?thesis
      by (subst ProcessHandTrackingData_decode [of ?c "\<lparr>data = Some ?d\<rparr>" ?d])
         (simp_all add: True tokens_wrapped split: option.splits)
  qed
  have "''['' @ body @ '']'' = CHR ''['' # body @ [CHR '']'']" by simp
  with main [of a b] main [of "CHR ''[''" "CHR '']''"] show ?thesis
    by simp
qed

text \<open>
  C6 as stated fails. The same 63 values, \<open>15, 0, \<dots>, 0, 20\<close>, give one frame when wrapped in
  brackets and another when sent bare, where the first and the last digit are what is
  removed; with a blank before and after the brackets the first token is \<open>[15\<close> and the
  coroutine ends with a \<^verbatim>\<open>FormatException\<close>.
\<close>

theorem unwrapped_payload_decodes_differently:
  "ProcessHandTrackingData float_Parse 0
     (initial\<lparr>isRecognizing := True,
              udpReceive := Some \<lparr>data = Some
                (''['' @ ''15'' @ concat (replicate 61 '',0'') @ '',20'' @ '']'')\<rparr>\<rparr>) =
   Posted \<lparr>landmarks = Landmark 15 0 0 # replicate 19 (Landmark 0 0 0) @ [Landmark 0 0 20],
           session_id = [], timestamp = 0\<rparr> \<and>
   ProcessHandTrackingData float_Parse 0
     (initial\<lparr>isRecognizing := True,
              udpReceive := Some \<lparr>data = Some
                (''15'' @ concat (replicate 61 '',0'') @ '',20'')\<rparr>\<rparr>) =
   Posted \<lparr>landmarks = Landmark 5 0 0 # replicate 19 (Landmark 0 0 0) @ [Landmark 0 0 2],
           session_id = [], timestamp = 0\<rparr> \<and>
   ProcessHandTrackingData float_Parse 0
     (initial\<lparr>isRecognizing := True,
              udpReceive := Some \<lparr>data = Some
                ('' ['' @ ''15'' @ concat (replicate 61 '',0'') @ '',20'' @ ''] '')\<rparr>\<rparr>) =
   CoroutineFailed FormatException"
  by code_simp

section \<open>The recognition switch gates the recogniser\<close>

lemma run_append: "run parse st (evs @ evs') = run parse (run parse st evs) evs'"
  by (simp add: run_def)

lemma run_Nil [simp]: "run parse st [] = st"
  by (simp add: run_def)

lemma run_Cons: "run parse st (e # evs) = run parse (step parse st e) evs"
  by (simp add: run_def)

lemma Update_off:
  "\<not> isRecognizing c \<Longrightarrow> Update parse now c = None \<or> Update parse now c = Some NotRecognizing"
  by (simp add: Update_def ProcessHandTrackingData_def split: option.splits)

lemma step_delivery_off:
  assumes "\<not> isRecognizing c" "delivery e"
  shows "snd (step parse (c, posted) e) = posted \<and> \<not> isRecognizing (fst (step parse (c, posted) e))"
proof (cases e)
  case (Tick now)
  with Update_off [OF assms(1), of parse now] assms(1) show ?thesis
    by auto
qed (use assms in simp_all)

lemma run_deliveries_off:
  assumes "\<not> isRecognizing c" "list_all delivery ds"
  shows "snd (run parse (c, posted) ds) = posted \<and> \<not> isRecognizing (fst (run parse (c, posted) ds))"
  using assms
proof (induction ds arbitrary: c)
  case Nil
  then show ?case by simp
next
  case (Cons e ds)
  obtain c' where st: "step parse (c, posted) e = (c', posted)" and off: "\<not> isRecognizing c'"
    using step_delivery_off [of c e parse posted] Cons.prems
    by (cases "step parse (c, posted) e") auto
  from Cons.IH [OF off] Cons.prems(2) show ?case
    by (simp add: run_Cons st)
qed

lemma updates_on:
  assumes "isRecognizing c" "handTracking c" "udpReceive c = Some u" "data u = Some d"
    and "2 \<le> length d" "63 \<le> length (tokens d)"
    and "parse_all parse (take 63 (tokens d)) = Some vs"
  shows "run parse (c, posted) (map Tick nows) =
         (c, posted @ map (\<lambda>now. \<lparr>landmarks = triples vs, session_id = currentSessionId c,
                                    timestamp = now\<rparr>) nows)"
proof (induction nows arbitrary: posted)
  case Nil
  then show ?case by simp
next
  case (Cons now nows)
  have ne: "d \<noteq> []" using assms(5) by auto
  have "ProcessHandTrackingData parse now c =
          Posted \<lparr>landmarks = triples vs, session_id = currentSessionId c, timestamp = now\<rparr>"
    by (subst ProcessHandTrackingData_decode [OF assms(1,3,4)]) (use assms in simp_all)
  then have "Update parse now c =
          Some (Posted \<lparr>landmarks = triples vs, session_id = currentSessionId c, timestamp = now\<rparr>)"
    using assms(2,3,4) ne by (simp add: Update_def IsNullOrEmpty_def)
  then have "step parse (c, posted) (Tick now) =
          (c, posted @ [\<lparr>landmarks = triples vs, session_id = currentSessionId c, timestamp = now\<rparr>])"
    by simp
  with Cons.IH show ?case
    by (simp add: run_Cons)
qed

lemma datagram_then_updates:
  assumes "handTracking c" "udpReceive c = Some u"
    and "2 \<le> length d" "63 \<le> length (tokens d)"
    and "parse_all parse (take 63 (tokens d)) = Some vs"
  shows "isRecognizing c \<Longrightarrow>
           snd (run parse (c, posted) (Datagram d # map Tick nows)) =
           posted @ map (\<lambda>now. \<lparr>landmarks = triples vs, session_id = currentSessionId c,
                                   timestamp = now\<rparr>) nows"
    and "\<not> isRecognizing c \<Longrightarrow> sw = Toggle \<or> sw = SetState True \<Longrightarrow>
           snd (run parse (c, posted) (sw # Datagram d # map Tick nows)) =
           posted @ map (\<lambda>now. \<lparr>landmarks = triples vs, session_id = currentSessionId c,
                                   timestamp = now\<rparr>) nows"
    and "\<not> isRecognizing c \<Longrightarrow> sw = Toggle \<or> sw = SetState True \<Longrightarrow>
           snd (run parse (c, posted) (Datagram d # sw # map Tick nows)) =
           posted @ map (\<lambda>now. \<lparr>landmarks = triples vs, session_id = currentSessionId c,
                                   timestamp = now\<rparr>) nows"
proof -
  let ?u = "u\<lparr>data := Some d\<rparr>"
  have du: "data ?u = Some d" by simp
  {
    assume on: "isRecognizing c"
    let ?c = "c\<lparr>udpReceive := Some ?u\<rparr>"
    have "run parse (?c, posted) (map Tick nows) =
            (?c, posted @ map (\<lambda>now. \<lparr>landmarks = triples vs, session_id = currentSessionId ?c,
                                      timestamp = now\<rparr>) nows)"
      by (rule updates_on [OF _ _ _ du assms(3,4,5)]) (use on assms(1) in simp_all)
    then show "snd (run parse (c, posted) (Datagram d # map Tick nows)) =
           posted @ map (\<lambda>now. \<lparr>landmarks = triples vs, session_id = currentSessionId c,
                                   timestamp = now\<rparr>) nows"
      using assms(2) by (simp add: run_Cons)
  }
  {
    assume off: "\<not> isRecognizing c" and sw: "sw = Toggle \<or> sw = SetState True"
    have st: "step parse (c', posted) sw = (c'\<lparr>isRecognizing := True\<rparr>, posted)"
      if "\<not> isRecognizing c'" for c'
      using sw that by (auto simp: ToggleRecognition_def SetRecognitionState_def)
    let ?c = "c\<lparr>isRecognizing := True, udpReceive := Some ?u\<rparr>"
    have "run parse (?c, posted) (map Tick nows) =
            (?c, posted @ map (\<lambda>now. \<lparr>landmarks = triples vs, session_id = currentSessionId ?c,
                                      timestamp = now\<rparr>) nows)"
      by (rule updates_on [OF _ _ _ du assms(3,4,5)]) (use assms(1) in simp_all)
    then show "snd (run parse (c, posted) (sw # Datagram d # map Tick nows)) =
           posted @ map (\<lambda>now. \<lparr>landmarks = triples vs, session_id = currentSessionId c,
                                   timestamp = now\<rparr>) nows"
      using assms(2) off by (simp add: run_Cons st)
    let ?c' = "c\<lparr>udpReceive := Some ?u, isRecognizing := True\<rparr>"
    have "run parse (?c', posted) (map Tick nows) =
            (?c', posted @ map (\<lambda>now. \<lparr>landmarks = triples vs, session_id = currentSessionId ?c',
                                      timestamp = now\<rparr>) nows)"
      by (rule updates_on [OF _ _ _ du assms(3,4,5)]) (use assms(1) in simp_all)
    then show "snd (run parse (c, posted) (Datagram d # sw # map Tick nows)) =
           posted @ map (\<lambda>now. \<lparr>landmarks = triples vs, session_id = currentSessionId c,
                                   timestamp = now\<rparr>) nows"
      using assms(2) off by (simp add: run_Cons st)
  }
qed

text \<open>
  C4, as the code has it. Take the connector after any sequence of commands, session
  replies, datagrams and calls of \<^verbatim>\<open>Update\<close>. While recognition is off, datagrams and calls of
  \<^verbatim>\<open>Update\<close> post nothing, however many and whatever their payload. While recognition is
  on, every call of \<^verbatim>\<open>Update\<close> posts the well-formed payload it finds in the receiver's
  \<open>data\<close> field: a datagram followed by any number of calls is posted once per call, with
  that call's clock reading. The same holds when recognition is switched on, by the
  button or by \<^verbatim>\<open>SetRecognitionState\<close>, before the datagram or after it: a payload that
  arrived while recognition was off is posted by the calls that follow the switch.
\<close>

theorem every_update_while_recognizing_posts_the_stored_payload:
  assumes "run parse st evs = (c, posted)"
  shows "(\<not> isRecognizing c \<longrightarrow>
            (\<forall>ds. list_all delivery ds \<longrightarrow> snd (run parse st (evs @ ds)) = posted)) \<and>
         (handTracking c \<and> udpReceive c \<noteq> None \<and> 2 \<le> length d \<and> 63 \<le> length (tokens d) \<and>
          parse_all parse (take 63 (tokens d)) = Some vs \<longrightarrow>
            (isRecognizing c \<longrightarrow>
               snd (run parse st (evs @ Datagram d # map Tick nows)) =
               posted @ map (\<lambda>now. \<lparr>landmarks = triples vs, session_id = currentSessionId c,
                                       timestamp = now\<rparr>) nows) \<and>
            (\<not> isRecognizing c \<and> (sw = Toggle \<or> sw = SetState True) \<longrightarrow>
               snd (run parse st (evs @ sw # Datagram d # map Tick nows)) =
               posted @ map (\<lambda>now. \<lparr>landmarks = triples vs, session_id = currentSessionId c,
                                       timestamp = now\<rparr>) nows \<and>
               snd (run parse st (evs @ Datagram d # sw # map Tick nows)) =
               posted @ map (\<lambda>now. \<lparr>landmarks = triples vs, session_id = currentSessionId c,
                                       timestamp = now\<rparr>) nows))"
proof (intro conjI impI allI)
  fix ds
  assume "\<not> isRecognizing c" "list_all delivery ds"
  then show "snd (run parse st (evs @ ds)) = posted"
    using run_deliveries_off [of c ds parse posted] by (simp add: run_append assms)
next
  assume v: "handTracking c \<and> udpReceive c \<noteq> None \<and> 2 \<le> length d \<and> 63 \<le> length (tokens d) \<and>
          parse_all parse (take 63 (tokens d)) = Some vs"
  then obtain u where u: "udpReceive c = Some u" by auto
  from v have h: "handTracking c" and l: "2 \<le> length d" "63 \<le> length (tokens d)"
    and p: "parse_all parse (take 63 (tokens d)) = Some vs"
    by simp_all
  note dt = datagram_then_updates [OF h u l p]
  {
    assume "isRecognizing c"
    from dt(1) [OF this, of posted nows]
    show "snd (run parse st (evs @ Datagram d # map Tick nows)) =
               posted @ map (\<lambda>now. \<lparr>landmarks = triples vs, session_id = currentSessionId c,
                                       timestamp = now\<rparr>) nows"
      by (simp add: run_append assms)
  }
  {
    assume "\<not> isRecognizing c \<and> (sw = Toggle \<or> sw = SetState True)"
    then have off: "\<not> isRecognizing c" and sw: "sw = Toggle \<or> sw = SetState True"
      by simp_all
    from dt(2) [OF off sw, of posted nows]
    show "snd (run parse st (evs @ sw # Datagram d # map Tick nows)) =
               posted @ map (\<lambda>now. \<lparr>landmarks = triples vs, session_id = currentSessionId c,
                                       timestamp = now\<rparr>) nows"
      by (simp add: run_append assms)
    from dt(3) [OF off sw, of posted nows]
    show "snd (run parse st (evs @ Datagram d # sw # map Tick nows)) =
               posted @ map (\<lambda>now. \<lparr>landmarks = triples vs, session_id = currentSessionId c,
                                       timestamp = now\<rparr>) nows"
      by (simp add: run_append assms)
  }
qed

theorem every_update_while_recognizing_posts_the_stored_payload_witness:
  "run float_Parse (initial, []) [Toggle, Toggle] = (initial, []) \<and>
   \<not> isRecognizing initial \<and>
   snd (run float_Parse (initial, [])
          ([Toggle, Toggle] @
           [Datagram (''['' @ Join '','' (replicate 63 ''7'') @ '']''), Tick 1, Tick 2])) = [] \<and>
   snd (run float_Parse (initial, [])
          ([Toggle, Toggle] @
           SetState True # Datagram (''['' @ Join '','' (replicate 63 ''7'') @ '']'') #
           map Tick [1, 2, 3])) =
     [\<lparr>landmarks = replicate 21 (Landmark 7 7 7), session_id = [], timestamp = 1\<rparr>,
      \<lparr>landmarks = replicate 21 (Landmark 7 7 7), session_id = [], timestamp = 2\<rparr>,
      \<lparr>landmarks = replicate 21 (Landmark 7 7 7), session_id = [], timestamp = 3\<rparr>]"
proof -
  let ?d = "''['' @ Join '','' (replicate 63 ''7'') @ '']''"
  have r: "run float_Parse (initial, []) [Toggle, Toggle] = (initial, [])"
    by (simp add: run_Cons ToggleRecognition_def initial_def)
  have off: "\<not> isRecognizing initial"
    by (simp add: initial_def)
  have del: "list_all delivery [Datagram ?d, Tick 1, Tick 2]"
    by simp
  have v: "handTracking initial \<and> udpReceive initial \<noteq> None \<and> 2 \<le> length ?d \<and>
           63 \<le> length (tokens ?d) \<and>
           parse_all float_Parse (take 63 (tokens ?d)) = Some (replicate 63 7)"
    by code_simp
  have t: "triples (replicate 63 (7::int)) = replicate 21 (Landmark 7 7 7)"
    by code_simp
  have i: "currentSessionId initial = []"
    by (simp add: initial_def)
  note gate = every_update_while_recognizing_posts_the_stored_payload
                [OF r, of ?d "replicate 63 7" "[1, 2, 3]" "SetState True"]
  from gate off del
  have a: "snd (run float_Parse (initial, []) ([Toggle, Toggle] @ [Datagram ?d, Tick 1, Tick 2])) = []"
    by blast
  from gate off v
  have "snd (run float_Parse (initial, [])
               ([Toggle, Toggle] @ SetState True # Datagram ?d # map Tick [1, 2, 3])) =
          [] @ map (\<lambda>now. \<lparr>landmarks = triples (replicate 63 7),
                             session_id = currentSessionId initial, timestamp = now\<rparr>) [1, 2, 3]"
    by blast
  then have b: "snd (run float_Parse (initial, [])
               ([Toggle, Toggle] @ SetState True # Datagram ?d # map Tick [1, 2, 3])) =
     [\<lparr>landmarks = replicate 21 (Landmark 7 7 7), session_id = [], timestamp = 1\<rparr>,
      \<lparr>landmarks = replicate 21 (Landmark 7 7 7), session_id = [], timestamp = 2\<rparr>,
      \<lparr>landmarks = replicate 21 (Landmark 7 7 7), session_id = [], timestamp = 3\<rparr>]"
    unfolding t i by simp
  from r off a b show ?thesis
    by blast
qed

text \<open>
  C4 as stated fails. A datagram that arrives while recognition is off is posted by the
  first call of \<^verbatim>\<open>Update\<close> after the button is pressed, and one datagram followed by two
  calls of \<^verbatim>\<open>Update\<close> is posted twice.
\<close>

theorem frame_from_off_state_is_posted_and_one_frame_twice:
  "\<not> isRecognizing initial \<and>
   snd (run float_Parse (initial, [])
          [Datagram (''['' @ Join '','' (replicate 63 ''7'') @ '']''), Toggle, Tick 1]) =
     [\<lparr>landmarks = replicate 21 (Landmark 7 7 7), session_id = [], timestamp = 1\<rparr>] \<and>
   snd (run float_Parse (initial, [])
          [Toggle, Datagram (''['' @ Join '','' (replicate 63 ''7'') @ '']''), Tick 1, Tick 2]) =
     [\<lparr>landmarks = replicate 21 (Landmark 7 7 7), session_id = [], timestamp = 1\<rparr>,
      \<lparr>landmarks = replicate 21 (Landmark 7 7 7), session_id = [], timestamp = 2\<rparr>]"
  by code_simp

section \<open>The simulated recognisers\<close>

lemma draw_index:
  assumes "0 \<le> r" "r < 1" "0 < n"
  shows "0 \<le> \<lfloor>r * real n\<rfloor>" "\<lfloor>r * real n\<rfloor> < int n"
proof -
  have "0 \<le> r * real n" using assms by simp
  then show "0 \<le> \<lfloor>r * real n\<rfloor>" by simp
  have "r * real n < real n" using assms by simp
  then show "\<lfloor>r * real n\<rfloor> < int n" by (simp add: floor_less_iff)
qed

lemma element_Some: "0 \<le> i \<Longrightarrow> i < int (length xs) \<Longrightarrow> element xs i = Some (xs ! nat i)"
  by (simp add: element_def)

lemma element_in_set: "element xs i = Some x \<Longrightarrow> x \<in> set xs"
  by (auto simp: element_def split: if_splits)

lemma length_mockSigns: "length mockSigns = 5"
  by (simp add: mockSigns_def)

lemma length_signsData: "length signsData = 20"
  by (simp add: signsData_def)

lemma mockSigns_entries:
  "sg \<in> set mockSigns \<Longrightarrow>
     name sg \<in> {''hello'', ''yes'', ''no'', ''thank_you'', ''please''} \<and>
     0.85 \<le> confidence sg \<and> confidence sg \<le> 0.9"
  by (auto simp: mockSigns_def)

lemma signsData_entries:
  "sg \<in> set signsData \<Longrightarrow> 0.8 \<le> confidence sg \<and> confidence sg \<le> 0.95"
  by (auto simp: signsData_def)

lemma recognize_sign_draw:
  assumes "0 \<le> r" "r < 1"
  shows "recognize_sign r imageData =
         Success \<lparr>result_sign = name (mockSigns ! nat \<lfloor>r * 5\<rfloor>),
                  result_confidence = confidence (mockSigns ! nat \<lfloor>r * 5\<rfloor>),
                  result_description = description (mockSigns ! nat \<lfloor>r * 5\<rfloor>),
                  ai_enabled = True\<rparr>"
    and "nat \<lfloor>r * 5\<rfloor> < 5"
proof -
  from draw_index [OF assms, of 5] have i: "0 \<le> \<lfloor>r * 5\<rfloor>" "\<lfloor>r * 5\<rfloor> < 5"
    by simp_all
  then show "nat \<lfloor>r * 5\<rfloor> < 5" by linarith
  from i have "element mockSigns \<lfloor>r * 5\<rfloor> = Some (mockSigns ! nat \<lfloor>r * 5\<rfloor>)"
    by (intro element_Some) (simp_all add: length_mockSigns)
  then show "recognize_sign r imageData =
         Success \<lparr>result_sign = name (mockSigns ! nat \<lfloor>r * 5\<rfloor>),
                  result_confidence = confidence (mockSigns ! nat \<lfloor>r * 5\<rfloor>),
                  result_description = description (mockSigns ! nat \<lfloor>r * 5\<rfloor>),
                  ai_enabled = True\<rparr>"
    by (simp add: recognize_sign_def length_mockSigns)
qed

lemma capturePhoto_draw:
  assumes "0 \<le> r" "r < 1"
  shows "capturePhoto True True r now clock s =
         s\<lparr>currentSign := Some (signsData ! nat \<lfloor>r * 20\<rfloor>),
           shownConfidence := confidence (signsData ! nat \<lfloor>r * 20\<rfloor>),
           conversationHistory := conversationHistory s @
             [\<lparr>entry_id = now, entry_timestamp = clock,
               entry_sign = name (signsData ! nat \<lfloor>r * 20\<rfloor>),
               entry_description = description (signsData ! nat \<lfloor>r * 20\<rfloor>),
               entry_confidence = confidence (signsData ! nat \<lfloor>r * 20\<rfloor>)\<rparr>]\<rparr>"
    and "nat \<lfloor>r * 20\<rfloor> < 20"
proof -
  from draw_index [OF assms, of 20] have i: "0 \<le> \<lfloor>r * 20\<rfloor>" "\<lfloor>r * 20\<rfloor> < 20"
    by simp_all
  then show "nat \<lfloor>r * 20\<rfloor> < 20" by linarith
  from i have "element signsData \<lfloor>r * 20\<rfloor> = Some (signsData ! nat \<lfloor>r * 20\<rfloor>)"
    by (intro element_Some) (simp_all add: length_signsData)
  then show "capturePhoto True True r now clock s =
         s\<lparr>currentSign := Some (signsData ! nat \<lfloor>r * 20\<rfloor>),
           shownConfidence := confidence (signsData ! nat \<lfloor>r * 20\<rfloor>),
           conversationHistory := conversationHistory s @
             [\<lparr>entry_id = now, entry_timestamp = clock,
               entry_sign = name (signsData ! nat \<lfloor>r * 20\<rfloor>),
               entry_description = description (signsData ! nat \<lfloor>r * 20\<rfloor>),
               entry_confidence = confidence (signsData ! nat \<lfloor>r * 20\<rfloor>)\<rparr>]\<rparr>"
    by (simp add: capturePhoto_def length_signsData)
qed

lemma draw_for_index:
  assumes "k < n"
  shows "0 \<le> (real k + 1 / 2) / real n" "(real k + 1 / 2) / real n < 1"
    "nat \<lfloor>(real k + 1 / 2) / real n * real n\<rfloor> = k"
proof -
  have n: "0 < real n" using assms by simp
  show "0 \<le> (real k + 1 / 2) / real n" using n by simp
  have "real k + 1 \<le> real n" using assms by (simp add: Suc_leI flip: of_nat_Suc)
  then have "real k + 1 / 2 < real n" by simp
  then show "(real k + 1 / 2) / real n < 1" using n by simp
  have "(real k + 1 / 2) / real n * real n = real k + 1 / 2" using n by simp
  moreover have "\<lfloor>real k + 1 / 2\<rfloor> = int k"
    by (rule floor_unique) simp_all
  ultimately show "nat \<lfloor>(real k + 1 / 2) / real n * real n\<rfloor> = k" by simp
qed

text \<open>
  C3, as the code has it. The candidate is fixed by the value drawn from \<^verbatim>\<open>Math.random()\<close>
  and by nothing else: for one draw the desktop handler answers alike for any two frames
  and the mobile app shows the same sign for any two clock readings and states, the
  candidate being an entry of the table. The frame decides nothing: for any frame, every
  entry of the table is the candidate at some draw.
\<close>

theorem candidate_depends_on_the_draw_alone:
  assumes "0 \<le> random" "random < 1"
  shows "recognize_sign random frame1 = recognize_sign random frame2 \<and>
         (\<exists>sg \<in> set mockSigns.
            recognize_sign random frame1 =
            Success \<lparr>result_sign = name sg, result_confidence = confidence sg,
                     result_description = description sg, ai_enabled = True\<rparr>) \<and>
         currentSign (capturePhoto True True random now1 clock1 s1) =
         currentSign (capturePhoto True True random now2 clock2 s2) \<and>
         (\<exists>sg \<in> set signsData.
            currentSign (capturePhoto True True random now1 clock1 s1) = Some sg) \<and>
         (\<forall>sg \<in> set mockSigns. \<exists>r. 0 \<le> r \<and> r < 1 \<and>
            recognize_sign r frame1 =
            Success \<lparr>result_sign = name sg, result_confidence = confidence sg,
                     result_description = description sg, ai_enabled = True\<rparr>) \<and>
         (\<forall>sg \<in> set signsData. \<exists>r. 0 \<le> r \<and> r < 1 \<and>
            currentSign (capturePhoto True True r now1 clock1 s1) = Some sg)"
proof (intro conjI ballI)
  note a = recognize_sign_draw [OF assms] and b = capturePhoto_draw [OF assms]
  show "recognize_sign random frame1 = recognize_sign random frame2"
    by (simp add: a(1))
  have "mockSigns ! nat \<lfloor>random * 5\<rfloor> \<in> set mockSigns"
    using a(2) by (simp add: length_mockSigns)
  then show "\<exists>sg \<in> set mockSigns.
            recognize_sign random frame1 =
            Success \<lparr>result_sign = name sg, result_confidence = confidence sg,
                     result_description = description sg, ai_enabled = True\<rparr>"
    by (auto simp: a(1))
  show "currentSign (capturePhoto True True random now1 clock1 s1) =
         currentSign (capturePhoto True True random now2 clock2 s2)"
    by (simp add: b(1))
  have "signsData ! nat \<lfloor>random * 20\<rfloor> \<in> set signsData"
    using b(2) by (simp add: length_signsData)
  then show "\<exists>sg \<in> set signsData.
            currentSign (capturePhoto True True random now1 clock1 s1) = Some sg"
    by (simp add: b(1))
next
  fix sg assume "sg \<in> set mockSigns"
  then obtain k where k: "k < 5" "mockSigns ! k = sg"
    by (auto simp: in_set_conv_nth length_mockSigns)
  note d = draw_for_index [of k 5, OF k(1)]
  from recognize_sign_draw(1) [OF d(1,2), of frame1] d(3) k(2)
  have "recognize_sign ((real k + 1 / 2) / 5) frame1 =
            Success \<lparr>result_sign = name sg, result_confidence = confidence sg,
                     result_description = description sg, ai_enabled = True\<rparr>"
    by simp
  with d(1,2) show "\<exists>r. 0 \<le> r \<and> r < 1 \<and>
            recognize_sign r frame1 =
            Success \<lparr>result_sign = name sg, result_confidence = confidence sg,
                     result_description = description sg, ai_enabled = True\<rparr>"
    by (intro exI [of _ "(real k + 1 / 2) / 5"]) simp
next
  fix sg assume "sg \<in> set signsData"
  then obtain k where k: "k < 20" "signsData ! k = sg"
    by (auto simp: in_set_conv_nth length_signsData)
  note d = draw_for_index [of k 20, OF k(1)]
  from capturePhoto_draw(1) [OF d(1,2), of now1 clock1 s1] d(3) k(2)
  have "currentSign (capturePhoto True True ((real k + 1 / 2) / 20) now1 clock1 s1) = Some sg"
    by simp
  with d(1,2) show "\<exists>r. 0 \<le> r \<and> r < 1 \<and>
            currentSign (capturePhoto True True r now1 clock1 s1) = Some sg"
    by (intro exI [of _ "(real k + 1 / 2) / 20"]) simp
qed

theorem candidate_depends_on_the_draw_alone_witness:
  "recognize_sign (1 / 2) ''open hand'' = recognize_sign (1 / 2) ''fist'' \<and>
   currentSign (capturePhoto True True (1 / 2) 1 ''10:00''
                  \<lparr>currentSign = None, shownConfidence = 0, conversationHistory = []\<rparr>) =
   currentSign (capturePhoto True True (1 / 2) 2 ''10:01''
                  \<lparr>currentSign = None, shownConfidence = 9 / 10, conversationHistory = []\<rparr>)"
proof -
  have h: "(0::real) \<le> 1 / 2" "(1::real) / 2 < 1"
    by simp_all
  from candidate_depends_on_the_draw_alone
         [OF h, of "''open hand''" "''fist''" 1 "''10:00''"
            "\<lparr>currentSign = None, shownConfidence = 0, conversationHistory = []\<rparr>" 2 "''10:01''"
            "\<lparr>currentSign = None, shownConfidence = 9 / 10, conversationHistory = []\<rparr>"]
  show ?thesis by blast
qed

text \<open>
  C3 as stated fails: the same frame with the draws 0 and 1/2 gives \<open>hello\<close> and \<open>no\<close>.
\<close>

theorem same_frame_two_candidates:
  "recognize_sign 0 ''frame'' =
     Success \<lparr>result_sign = ''hello'', result_confidence = 0.9,
              result_description = ''Wave hand in greeting motion'', ai_enabled = True\<rparr> \<and>
   recognize_sign (1 / 2) ''frame'' =
     Success \<lparr>result_sign = ''no'', result_confidence = 0.85,
              result_description = ''Index finger shakes side to side'', ai_enabled = True\<rparr>"
  by (simp add: recognize_sign_def element_def mockSigns_def)

text \<open>
  C8. Every candidate a recogniser produces carries a confidence between 0 and 1: the
  desktop handler's result and the mobile app's current sign for every draw in \<open>[0, 1)\<close>
  (between 0.8 and 0.95, as the two tables have it), and the backend's fixed answer. When
  the camera is missing or the photo fails, the mobile app produces no candidate and its
  state is unchanged.
\<close>

theorem confidence_in_unit_interval:
  assumes "0 \<le> random" "random < 1"
  shows "(\<exists>res. recognize_sign random imageData = Success res \<and>
            0 \<le> result_confidence res \<and> result_confidence res \<le> 1 \<and>
            0.8 \<le> result_confidence res \<and> result_confidence res \<le> 0.95) \<and>
         (\<exists>sg. currentSign (capturePhoto True True random now clock s) = Some sg \<and>
            shownConfidence (capturePhoto True True random now clock s) = confidence sg \<and>
            0 \<le> confidence sg \<and> confidence sg \<le> 1 \<and>
            0.8 \<le> confidence sg \<and> confidence sg \<le> 0.95) \<and>
         (\<not> (camera \<and> photo) \<longrightarrow> capturePhoto camera photo random now clock s = s) \<and>
         0 \<le> recognised_confidence (recognize_sign_from_landmarks ls) \<and>
         recognised_confidence (recognize_sign_from_landmarks ls) \<le> 1"
proof (intro conjI)
  note a = recognize_sign_draw [OF assms]
  have "mockSigns ! nat \<lfloor>random * 5\<rfloor> \<in> set mockSigns"
    using a(2) by (simp add: length_mockSigns)
  from mockSigns_entries [OF this]
  show "\<exists>res. recognize_sign random imageData = Success res \<and>
            0 \<le> result_confidence res \<and> result_confidence res \<le> 1 \<and>
            0.8 \<le> result_confidence res \<and> result_confidence res \<le> 0.95"
    by (simp add: a(1))
next
  note b = capturePhoto_draw [OF assms]
  have "signsData ! nat \<lfloor>random * 20\<rfloor> \<in> set signsData"
    using b(2) by (simp add: length_signsData)
  from signsData_entries [OF this]
  show "\<exists>sg. currentSign (capturePhoto True True random now clock s) = Some sg \<and>
            shownConfidence (capturePhoto True True random now clock s) = confidence sg \<and>
            0 \<le> confidence sg \<and> confidence sg \<le> 1 \<and>
            0.8 \<le> confidence sg \<and> confidence sg \<le> 0.95"
    by (simp add: b(1))
next
  show "\<not> (camera \<and> photo) \<longrightarrow> capturePhoto camera photo random now clock s = s"
    by (simp add: capturePhoto_def)
qed (simp_all add: recognize_sign_from_landmarks_def)

theorem confidence_in_unit_interval_witness:
  "\<exists>res. recognize_sign (99 / 100) ''frame'' = Success res \<and>
         result_sign res = ''please'' \<and> 0 \<le> result_confidence res \<and> result_confidence res \<le> 1"
proof -
  have h: "(0::real) \<le> 99 / 100" "(99::real) / 100 < 1"
    by simp_all
  have "\<exists>res. recognize_sign (99 / 100) ''frame'' = Success res \<and> result_sign res = ''please''"
    by (simp add: recognize_sign_def element_def mockSigns_def)
  then obtain res where r: "recognize_sign (99 / 100) ''frame'' = Success res"
    and n: "result_sign res = ''please''"
    by blast
  from confidence_in_unit_interval [OF h, of "''frame''", THEN conjunct1] r
  have "0 \<le> result_confidence res \<and> result_confidence res \<le> 1"
    by auto
  with r n show ?thesis
    by blast
qed

text \<open>
  C10. For every draw in \<open>[0, 1)\<close> and every argument, the \<^verbatim>\<open>recognize-sign\<close> handler
  answers with success and one of the five names of its table; the failure answer of its
  \<^verbatim>\<open>catch\<close> block does not occur; and the answer is the same for any two arguments, of
  whatever type.
\<close>

theorem recognize_sign_total_and_input_independent:
  assumes "0 \<le> random" "random < 1"
  shows "(\<exists>res. recognize_sign random imageData = Success res \<and> ai_enabled res \<and>
            result_sign res \<in> {''hello'', ''yes'', ''no'', ''thank_you'', ''please''}) \<and>
         (\<forall>e. recognize_sign random imageData \<noteq> Failure e) \<and>
         recognize_sign random imageData = recognize_sign random otherData"
proof -
  note a = recognize_sign_draw [OF assms]
  have "mockSigns ! nat \<lfloor>random * 5\<rfloor> \<in> set mockSigns"
    using a(2) by (simp add: length_mockSigns)
  from mockSigns_entries [OF this] show ?thesis
    by (simp add: a(1))
qed

theorem recognize_sign_total_and_input_independent_witness:
  "recognize_sign (7 / 10) (None :: string option) = recognize_sign (7 / 10) (Some ''image'') \<and>
   (\<exists>res. recognize_sign (7 / 10) (None :: string option) = Success res \<and>
      result_sign res = ''thank_you'')"
proof -
  have h: "(0::real) \<le> 7 / 10" "(7::real) / 10 < 1"
    by simp_all
  have "\<exists>res. recognize_sign (7 / 10) (None :: string option) = Success res \<and>
          result_sign res = ''thank_you''"
    by (simp add: recognize_sign_def element_def mockSigns_def)
  with recognize_sign_total_and_input_independent
         [OF h, of "None :: string option" "Some ''image''"]
  show ?thesis by blast
qed

section \<open>Saving and loading a conversation\<close>

lemma read_after_write:
  "writeFileSync fs p text = Inr fs' \<Longrightarrow> readFileSync fs' p = Inr text"
  by (auto simp: writeFileSync_def readFileSync_def split: if_splits)

lemma signbridge_conversation_unbound:
  "read_identifier ''signbridge_conversation_'' = Inl (ReferenceError ''signbridge_conversation_'')"
  by (simp add: read_identifier_def scope_def)

text \<open>
  C9 on the code. The handler reads the unbound identifier \<^verbatim>\<open>signbridge_conversation_\<close>
  while it builds the dialog's options, so for every conversation, every choice in the
  dialog and every file system it answers with the \<^verbatim>\<open>ReferenceError\<close> and writes nothing;
  loading the chosen path from a file system without that file then fails.
\<close>

theorem save_conversation_always_fails:
  "save_conversation stringify choice conversationData fs =
     (fs, Failure (ReferenceError ''signbridge_conversation_'')) \<and>
   load_conversation parse ''/home/user/talk.json''
     (fst (save_conversation stringify
             \<lparr>canceled = False, filePath = ''/home/user/talk.json''\<rparr> conversationData
             \<lparr>files = Map.empty, readonly = []\<rparr>)) =
     Failure (SystemError ''ENOENT'')"
  by (simp add: save_conversation_def signbridge_conversation_unbound load_conversation_def
        readFileSync_def)

section \<open>Session identifiers\<close>

lemma of_char_digit_char: "d < 10 \<Longrightarrow> (of_char (digit_char d) :: nat) = 48 + d"
  by (simp add: digit_char_def)

lemma digits_value_snoc:
  "digits_value (ds @ [c]) = 10 * digits_value ds + (of_char c - 48)"
  by (simp add: digits_value_def)

lemma digits_value_str_nat: "digits_value (str_nat n) = n"
proof (induction n rule: str_nat.induct)
  case (1 n)
  show ?case
  proof (cases "n < 10")
    case True
    then show ?thesis
      by (subst str_nat.simps) (simp add: digits_value_def of_char_digit_char)
  next
    case False
    with 1 have "digits_value (str_nat (n div 10)) = n div 10" by simp
    with False show ?thesis
      by (subst str_nat.simps) (simp add: digits_value_snoc of_char_digit_char)
  qed
qed

lemma is_digit_digit_char: "d < 10 \<Longrightarrow> is_digit (digit_char d)"
  by (simp add: is_digit_def of_char_digit_char)

lemma str_nat_digits: "list_all is_digit (str_nat n)"
proof (induction n rule: str_nat.induct)
  case (1 n)
  show ?case
  proof (cases "n < 10")
    case True
    then show ?thesis
      by (subst str_nat.simps) (simp add: is_digit_digit_char)
  next
    case False
    with 1 show ?thesis
      by (subst str_nat.simps) (simp add: is_digit_digit_char)
  qed
qed

lemma str_nat_not_Nil: "str_nat n \<noteq> []"
  by (subst str_nat.simps) simp

lemma str_nat_inj: "str_nat m = str_nat n \<Longrightarrow> m = n"
  by (metis digits_value_str_nat)

lemma minus_not_digit: "\<not> is_digit CHR ''-''"
  by (simp add: is_digit_def)

lemma str_nat_no_minus: "str_nat n \<noteq> CHR ''-'' # s"
proof
  assume "str_nat n = CHR ''-'' # s"
  with str_nat_digits [of n] have "is_digit CHR ''-''" by simp
  with minus_not_digit show False by simp
qed

lemma str_int_inj: "str_int i = str_int j \<longleftrightarrow> i = j"
proof
  assume eq: "str_int i = str_int j"
  consider "i < 0" "j < 0" | "0 \<le> i" "0 \<le> j" | "i < 0" "0 \<le> j" | "0 \<le> i" "j < 0"
    by linarith
  then show "i = j"
  proof cases
    case 1
    with eq have "nat (- i) = nat (- j)" by (auto simp: str_int_def dest: str_nat_inj)
    with 1 show ?thesis by simp
  next
    case 2
    with eq have "nat i = nat j" by (auto simp: str_int_def dest: str_nat_inj)
    with 2 show ?thesis by simp
  next
    case 3
    with eq str_nat_no_minus [of "nat j" "str_nat (nat (- i))"] show ?thesis
      by (simp add: str_int_def)
  next
    case 4
    with eq str_nat_no_minus [of "nat i" "str_nat (nat (- j))"] show ?thesis
      by (simp add: str_int_def)
  qed
qed simp

text \<open>
  C7, as the code has it. The backend names a session \<open>ht_\<close> followed by the clock in
  whole seconds, so two starts get different ids exactly when their clock readings lie
  in different seconds. The connector holds one session id, which each successful start
  replaces. The backend keeps no record of the ids it gave out: a landmark request is
  answered with success for any session id, which it returns unchanged.
\<close>

theorem session_id_is_the_whole_second:
  "(started_session_id (start_hand_tracking t1) = started_session_id (start_hand_tracking t2)
      \<longleftrightarrow> py_int t1 = py_int t2) \<and>
   GetCurrentSessionId
     (StartLearningSession (Received \<lparr>success = True, message = second\<rparr>)
        (StartLearningSession (Received \<lparr>success = True, message = first\<rparr>) c)) = second \<and>
   process_hand_landmarks (Some \<lparr>request_landmarks = ls, request_session_id = sid\<rparr>) =
     Inr \<lparr>response_success = True, response_sign = ''Hello'', response_category = ''greeting'',
          response_confidence = 0.92, response_session_id = sid\<rparr>"
  by (simp add: start_hand_tracking_def str_int_inj GetCurrentSessionId_def
        StartLearningSession_def process_hand_landmarks_def recognize_sign_from_landmarks_def)

text \<open>
  C7 as stated fails: two starts within the second 100 get the same id, and a request
  tagged with an id given out earlier is answered with success.
\<close>

theorem two_starts_within_a_second_share_an_id:
  "started_session_id (start_hand_tracking (1002 / 10)) = ''ht_100'' \<and>
   started_session_id (start_hand_tracking (1007 / 10)) = ''ht_100'' \<and>
   started_session_id (start_hand_tracking 250) = ''ht_250'' \<and>
   process_hand_landmarks
     (Some \<lparr>request_landmarks = Some ([] :: int list), request_session_id = Some ''ht_100''\<rparr>) =
     Inr \<lparr>response_success = True, response_sign = ''Hello'', response_category = ''greeting'',
          response_confidence = 0.92, response_session_id = Some ''ht_100''\<rparr>"
  by code_simp

end
